theory Spec2Isabelle
  imports Main "HOL-Library.Char_ord" "HOL-Library.List_Lexorder"
begin

section \<open>Python values that reach the program\<close>

text \<open>
  Everything the program reads (the Ashby response, the contents of jobs.json) is the
  result of a JSON parse, so a Python value is modelled as a JSON value. A \<open>dict\<close> is an
  association list in insertion order, its keys distinct. A \<open>str\<close> is a \<open>string\<close>
  (bytes of the UTF-8 text; exact for ASCII text). JSON numbers are the integers; a
  number with a fraction or an exponent (a Python float) is outside this model.
\<close>

datatype json =
    JNull
  | JBool bool
  | JInt int
  | JStr string
  | JArr "json list"
  | JObj "(string \<times> json) list"

text \<open>The exceptions that the program's calls can raise.\<close>

datatype exn =
    Timeout
  | HTTPError nat
  | RequestException
  | JSONDecodeError
  | UnicodeDecodeError
  | ValueError
  | KeyError
  | IOError
  | AttributeError
  | TypeError
  | SystemExit

text \<open>Python truth value testing: \<open>None\<close>, \<open>False\<close>, \<open>0\<close> and empty containers are false.\<close>

fun truthy :: "json \<Rightarrow> bool" where
  "truthy JNull = False"
| "truthy (JBool b) = b"
| "truthy (JInt n) = (n \<noteq> 0)"
| "truthy (JStr s) = (s \<noteq> [])"
| "truthy (JArr xs) = (xs \<noteq> [])"
| "truthy (JObj kvs) = (kvs \<noteq> [])"

text \<open>Lists and dicts are unhashable: using one as a dict key or set member raises TypeError.\<close>

fun hashable :: "json \<Rightarrow> bool" where
  "hashable (JArr xs) = False"
| "hashable (JObj kvs) = False"
| "hashable v = True"

text \<open>\<open>d.get(k, default)\<close> on a dict.\<close>

definition dict_get :: "(string \<times> json) list \<Rightarrow> string \<Rightarrow> json \<Rightarrow> json" where
  "dict_get d k dflt = (case map_of d k of None \<Rightarrow> dflt | Some v \<Rightarrow> v)"

subsection \<open>\<open>str()\<close> as applied by an f-string\<close>

fun digits :: "nat \<Rightarrow> string" where
  "digits n = (if n < 10 then [char_of (48 + n)] else digits (n div 10) @ [char_of (48 + n mod 10)])"

definition str_int :: "int \<Rightarrow> string" where
  "str_int i = (if i < 0 then CHR ''-'' # digits (nat (- i)) else digits (nat i))"

definition hex_digit :: "nat \<Rightarrow> char" where
  "hex_digit n = (if n < 10 then char_of (48 + n) else char_of (87 + n))"

text \<open>
  \<open>repr\<close> of a \<open>str\<close>: single quotes, unless the text holds a single quote and no double
  quote; the quote and the backslash are escaped, tab, newline and carriage return get
  their letter, other control characters are written \<open>\xhh\<close>. Bytes from 0x80 on
  (non-ASCII text) are kept as they are.
\<close>

definition repr_char :: "char \<Rightarrow> char \<Rightarrow> string" where
  "repr_char q c =
     (let n = (of_char c :: nat) in
      if c = q \<or> c = CHR 0x5C then [CHR 0x5C, c]
      else if c = CHR 0x09 then [CHR 0x5C, CHR ''t'']
      else if c = CHR 0x0A then [CHR 0x5C, CHR ''n'']
      else if c = CHR 0x0D then [CHR 0x5C, CHR ''r'']
      else if n < 32 \<or> n = 127 then [CHR 0x5C, CHR ''x'', hex_digit (n div 16), hex_digit (n mod 16)]
      else [c])"

definition repr_str :: "string \<Rightarrow> string" where
  "repr_str s =
     (let q = (if CHR 0x27 \<in> set s \<and> CHR 0x22 \<notin> set s then CHR 0x22 else CHR 0x27)
      in q # concat (map (repr_char q) s) @ [q])"

fun join :: "string \<Rightarrow> string list \<Rightarrow> string" where
  "join sep [] = []"
| "join sep [x] = x"
| "join sep (x # y # ys) = x @ sep @ join sep (y # ys)"

fun py_repr :: "json \<Rightarrow> string"
  and py_reprs :: "json list \<Rightarrow> string list"
  and py_repr_items :: "(string \<times> json) list \<Rightarrow> string list" where
  "py_repr JNull = ''None''"
| "py_repr (JBool b) = (if b then ''True'' else ''False'')"
| "py_repr (JInt i) = str_int i"
| "py_repr (JStr s) = repr_str s"
| "py_repr (JArr xs) = ''['' @ join '', '' (py_reprs xs) @ '']''"
| "py_repr (JObj kvs) = ''{'' @ join '', '' (py_repr_items kvs) @ ''}''"
| "py_reprs [] = []"
| "py_reprs (x # xs) = py_repr x # py_reprs xs"
| "py_repr_items [] = []"
| "py_repr_items ((k, v) # kvs) = (repr_str k @ '': '' @ py_repr v) # py_repr_items kvs"

fun py_str :: "json \<Rightarrow> string" where
  "py_str (JStr s) = s"
| "py_str v = py_repr v"

section \<open>Ashby API\<close>

text \<open>The dict that \<open>normalise_job\<close> returns. Key \<open>id\<close> is field \<open>ident\<close>.\<close>

record job =
  ident :: string
  platform :: string
  title :: json
  department :: json
  team :: json
  location :: json
  is_remote :: json
  employment_type :: json
  published_at :: json
  job_url :: json
  apply_url :: json

definition employment_type_map :: "(json \<times> json) list" where
  "employment_type_map =
     [(JStr ''FullTime'', JStr ''Full-Time''),
      (JStr ''PartTime'', JStr ''Part-Time''),
      (JStr ''Contract'', JStr ''Contract''),
      (JStr ''Intern'', JStr ''Internship'')]"

text \<open>
  The part of the id that follows the platform prefix: \<open>raw.get("id") or f"{title}_{publishedAt}"\<close>.
  Python's \<open>or\<close> takes the right operand whenever the left one is false in truth value
  testing, not only when it is \<open>None\<close>.
\<close>

definition local_job_id :: "(string \<times> json) list \<Rightarrow> json" where
  "local_job_id raw =
     (let i = dict_get raw ''id'' JNull in
      if truthy i then i
      else JStr (py_str (dict_get raw ''title'' (JStr '''')) @ ''_'' @
                 py_str (dict_get raw ''publishedAt'' (JStr ''''))))"

definition normalise_job :: "(string \<times> json) list \<Rightarrow> string \<Rightarrow> exn + job" where
  "normalise_job raw platform_name =
     (let raw_type = dict_get raw ''employmentType'' (JStr '''');
          job_id = local_job_id raw;
          internal_id = platform_name @ '':'' @ py_str job_id
      in if \<not> hashable raw_type then Inl TypeError
         else Inr \<lparr> ident = internal_id,
                    platform = platform_name,
                    title = dict_get raw ''title'' (JStr ''Untitled Role''),
                    department = dict_get raw ''department'' (JStr ''Unknown''),
                    team = dict_get raw ''team'' (JStr ''''),
                    location = dict_get raw ''location'' (JStr ''Unknown''),
                    is_remote = dict_get raw ''isRemote'' (JBool False),
                    employment_type =
                      (case map_of employment_type_map raw_type of
                         None \<Rightarrow> raw_type | Some t \<Rightarrow> t),
                    published_at = dict_get raw ''publishedAt'' (JStr ''''),
                    job_url = dict_get raw ''jobUrl'' (JStr ''''),
                    apply_url = dict_get raw ''applyUrl'' (JStr '''') \<rparr>)"

text \<open>
  Iterating over a value, as \<open>for x in v\<close> and \<open>set(v)\<close> do: a list yields its elements, a
  str its characters, a dict its keys; \<open>None\<close>, a bool and an int are not iterable.
\<close>

fun py_iter :: "json \<Rightarrow> exn + json list" where
  "py_iter (JArr xs) = Inr xs"
| "py_iter (JStr s) = Inr (map (\<lambda>c. JStr [c]) s)"
| "py_iter (JObj kvs) = Inr (map (\<lambda>kv. JStr (fst kv)) kvs)"
| "py_iter v = Inl TypeError"

text \<open>\<open>[normalise_job(job, name) for job in raw_jobs if isinstance(job, dict)]\<close>\<close>

fun normalise_all :: "json list \<Rightarrow> string \<Rightarrow> exn + job list" where
  "normalise_all [] nm = Inr []"
| "normalise_all (JObj raw # rest) nm =
     (case normalise_job raw nm of
        Inl e \<Rightarrow> Inl e
      | Inr j \<Rightarrow> (case normalise_all rest nm of Inl e \<Rightarrow> Inl e | Inr js \<Rightarrow> Inr (j # js)))"
| "normalise_all (v # rest) nm = normalise_all rest nm"

record board =
  name :: string
  url :: string

text \<open>
  What \<open>requests.get(url, timeout=15)\<close> does: it raises \<open>Timeout\<close>, raises another
  \<open>RequestException\<close> (no connection, bad URL), or returns a response with a status code
  and a body; the body is \<open>None\<close> here when it is not JSON, and \<open>response.json()\<close> raises.
\<close>

datatype http_result =
    RaisesTimeout
  | RaisesRequestException
  | Response nat "json option"

datatype level = INFO | WARNING | ERROR

text \<open>
  The effects of a run, in the order they happen. \<open>FileWrite ids\<close> is the
  \<open>open(filepath, "w")\<close> and \<open>json.dump\<close> of the sorted id list; \<open>HttpPost text k\<close> is the
  POST of attempt \<open>k\<close> (0 or 1) for one message. The text of a log line is not modelled.
\<close>

datatype event =
    Log level
  | HttpGet string
  | FileWrite "string list"
  | HttpPost string nat
  | Sleep nat

text \<open>
  The \<open>try\<close> block of \<open>fetch_jobs\<close>. \<open>raise_for_status\<close> raises \<open>HTTPError\<close> for a status
  from 400 to 599. A body that is not JSON makes \<open>response.json()\<close> raise a
  \<open>JSONDecodeError\<close>, which is a \<open>ValueError\<close> (and, in recent versions of requests, a
  \<open>RequestException\<close> too: either clause logs and returns \<open>[]\<close>).
\<close>

definition fetch_body :: "string \<Rightarrow> http_result \<Rightarrow> exn + job list" where
  "fetch_body nm r =
     (case r of
        RaisesTimeout \<Rightarrow> Inl Timeout
      | RaisesRequestException \<Rightarrow> Inl RequestException
      | Response status body \<Rightarrow>
          if 400 \<le> status \<and> status < 600 then Inl (HTTPError status)
          else (case body of
                  None \<Rightarrow> Inl JSONDecodeError
                | Some data \<Rightarrow>
                    (case data of
                       JObj d \<Rightarrow>
                         (case py_iter (dict_get d ''jobs'' (JArr [])) of
                            Inl e \<Rightarrow> Inl e
                          | Inr raw_jobs \<Rightarrow> normalise_all raw_jobs nm)
                     | _ \<Rightarrow> Inl AttributeError)))"

text \<open>\<open>JSONDecodeError\<close> and \<open>UnicodeDecodeError\<close> are subclasses of \<open>ValueError\<close>.\<close>

definition is_ValueError :: "exn \<Rightarrow> bool" where
  "is_ValueError e = (e = ValueError \<or> e = JSONDecodeError \<or> e = UnicodeDecodeError)"

fun is_HTTPError :: "exn \<Rightarrow> bool" where
  "is_HTTPError (HTTPError c) = True"
| "is_HTTPError e = False"

text \<open>
  The \<open>except\<close> clauses of \<open>fetch_jobs\<close>: \<open>Timeout\<close>, \<open>HTTPError\<close>, \<open>RequestException\<close>, then
  \<open>(ValueError, KeyError)\<close>. Every clause logs an error and returns \<open>[]\<close>; an exception of
  another class leaves the function.
\<close>

definition fetch_jobs :: "board \<Rightarrow> http_result \<Rightarrow> (exn + job list) \<times> event list" where
  "fetch_jobs b r =
     (case fetch_body (name b) r of
        Inr jobs \<Rightarrow> (Inr jobs, [HttpGet (url b)])
      | Inl e \<Rightarrow>
          if e = Timeout then (Inr [], [HttpGet (url b), Log ERROR])
          else if is_HTTPError e then (Inr [], [HttpGet (url b), Log ERROR])
          else if e = RequestException then (Inr [], [HttpGet (url b), Log ERROR])
          else if is_ValueError e \<or> e = KeyError then (Inr [], [HttpGet (url b), Log ERROR])
          else (Inl e, [HttpGet (url b)]))"

section \<open>State persistence\<close>

text \<open>
  The file jobs.json as a read finds it: absent; present but \<open>open\<close> or \<open>read\<close> raises
  \<open>IOError\<close>; bytes that are not UTF-8; text that is not JSON (the empty text and every
  text cut short are such); or a JSON document.
\<close>

datatype file_state = Missing | Unreadable | Undecodable | NotJson | Json json

text \<open>\<open>with open(filepath, "r", encoding="utf-8") as f: data = json.load(f)\<close>\<close>

fun read_json :: "file_state \<Rightarrow> exn + json" where
  "read_json Missing = Inl IOError"
| "read_json Unreadable = Inl IOError"
| "read_json Undecodable = Inl UnicodeDecodeError"
| "read_json NotJson = Inl JSONDecodeError"
| "read_json (Json v) = Inr v"

definition py_set :: "json \<Rightarrow> exn + json set" where
  "py_set v =
     (case py_iter v of
        Inl e \<Rightarrow> Inl e
      | Inr xs \<Rightarrow> if list_all hashable xs then Inr (set xs) else Inl TypeError)"

definition load_seen_ids :: "file_state \<Rightarrow> (exn + json set \<times> bool) \<times> event list" where
  "load_seen_ids f =
     (if f = Missing then (Inr ({}, True), [])
      else (case read_json f of
              Inl e \<Rightarrow>
                if e = JSONDecodeError \<or> e = IOError then (Inr ({}, False), [Log WARNING])
                else (Inl e, [])
            | Inr data \<Rightarrow>
                (case data of
                   JObj d \<Rightarrow>
                     (case py_set (dict_get d ''ids'' (JArr [])) of
                        Inl e \<Rightarrow> (Inl e, [])
                      | Inr ids \<Rightarrow> (Inr (ids, False), []))
                 | _ \<Rightarrow> (Inl AttributeError, []))))"

text \<open>
  \<open>sorted(list(ids))\<close>. The program sorts sets of posting ids, which are \<open>str\<close>: the order
  is the lexicographic order of the characters. A set with a member that is not a \<open>str\<close>
  is answered with \<open>TypeError\<close>, which is what comparing a \<open>str\<close> with another type
  raises.
\<close>

fun is_str :: "json \<Rightarrow> bool" where
  "is_str (JStr s) = True"
| "is_str v = False"

fun the_str :: "json \<Rightarrow> string" where
  "the_str (JStr s) = s"
| "the_str v = []"

definition py_sorted :: "json set \<Rightarrow> exn + string list" where
  "py_sorted ids =
     (if (\<forall>v \<in> ids. is_str v) then Inr (sorted_list_of_set (the_str ` ids)) else Inl TypeError)"

text \<open>The dict \<open>{"ids": [...]}\<close> that \<open>json.dump\<close> writes.\<close>

definition snapshot_doc :: "string list \<Rightarrow> json" where
  "snapshot_doc ids = JObj [(''ids'', JArr (map JStr ids))]"

text \<open>
  The file while \<open>save_seen_ids\<close> writes it, after \<open>k\<close> steps: before
  \<open>open(filepath, "w")\<close> it is what it was; \<open>open\<close> in mode \<open>w\<close> truncates it, and until
  \<open>json.dump\<close> has written the last character and the file is closed its text is cut
  short; after that it holds the document.
\<close>

fun save_progress :: "nat \<Rightarrow> string list \<Rightarrow> file_state \<Rightarrow> file_state" where
  "save_progress 0 ids f = f"
| "save_progress (Suc 0) ids f = NotJson"
| "save_progress (Suc (Suc k)) ids f = Json (snapshot_doc ids)"

text \<open>How far the write gets: \<open>open\<close> raises \<open>IOError\<close>, \<open>json.dump\<close> raises it, or neither.\<close>

datatype write_outcome = OpenFails | DumpFails | WriteOk

fun steps_done :: "write_outcome \<Rightarrow> nat" where
  "steps_done OpenFails = 0"
| "steps_done DumpFails = 1"
| "steps_done WriteOk = 2"

text \<open>
  \<open>sorted\<close> is inside the \<open>try\<close>, whose only clause is \<open>except IOError\<close>: a \<open>TypeError\<close> from
  it leaves the function, an \<open>IOError\<close> is logged and swallowed.
\<close>

definition save_seen_ids ::
  "json set \<Rightarrow> write_outcome \<Rightarrow> file_state \<Rightarrow> exn option \<times> file_state \<times> event list" where
  "save_seen_ids ids w f =
     (case py_sorted ids of
        Inl e \<Rightarrow> (Some e, f, [])
      | Inr sorted_ids \<Rightarrow>
          (None, save_progress (steps_done w) sorted_ids f,
           FileWrite sorted_ids # (if w = WriteOk then [] else [Log ERROR])))"

section \<open>Telegram\<close>

text \<open>
  \<open>post k\<close> tells whether the \<open>k\<close>-th POST of the run gets a success status; otherwise
  \<open>requests.post\<close> or \<open>raise_for_status\<close> raises a \<open>RequestException\<close>. \<open>n\<close> counts the
  POSTs made so far.
\<close>

definition send_telegram_message ::
  "string \<Rightarrow> (nat \<Rightarrow> bool) \<Rightarrow> nat \<Rightarrow> bool \<times> event list \<times> nat" where
  "send_telegram_message text post n =
     (if post n then (True, [HttpPost text 0], n + 1)
      else if post (n + 1)
        then (True, [HttpPost text 0, Log WARNING, Sleep 5, HttpPost text 1], n + 2)
        else (False, [HttpPost text 0, Log WARNING, Sleep 5, HttpPost text 1, Log ERROR], n + 2))"

definition replace_char :: "char \<Rightarrow> string \<Rightarrow> string" where
  "replace_char c s = concat (map (\<lambda>x. if x = c then [CHR 0x5C, c] else [x]) s)"

definition escape_markdown :: "string \<Rightarrow> string" where
  "escape_markdown s = fold replace_char [CHR ''*'', CHR ''_'', CHR 0x60, CHR ''[''] s"

text \<open>\<open>escape_markdown\<close> applied to a field of the job: \<open>text.replace\<close> exists on a \<open>str\<close> only.\<close>

fun escape_field :: "json \<Rightarrow> exn + string" where
  "escape_field (JStr s) = Inr (escape_markdown s)"
| "escape_field v = Inl AttributeError"

text \<open>
  \<open>job["published_at"][:10] if job["published_at"] else "Unknown"\<close>: a str and a list can
  be sliced; a nonzero int and \<open>True\<close> cannot (TypeError), nor can a dict (TypeError; a
  KeyError from Python 3.12 on).
\<close>

fun pub_date_of :: "json \<Rightarrow> exn + string" where
  "pub_date_of (JStr s) = Inr (if s \<noteq> [] then take 10 s else ''Unknown'')"
| "pub_date_of (JArr xs) = Inr (if xs \<noteq> [] then py_str (JArr (take 10 xs)) else ''Unknown'')"
| "pub_date_of v = (if truthy v then Inl TypeError else Inr ''Unknown'')"

definition bind_exn :: "exn + 'a \<Rightarrow> ('a \<Rightarrow> exn + 'b) \<Rightarrow> exn + 'b" where
  "bind_exn m k = (case m of Inl e \<Rightarrow> Inl e | Inr x \<Rightarrow> k x)"

text \<open>The glyphs of the template that are not ASCII are written as their UTF-8 bytes.\<close>

definition format_new_job_message :: "job \<Rightarrow> exn + string" where
  "format_new_job_message j =
     bind_exn (Inr (escape_markdown (platform j))) (\<lambda>platform'.
     bind_exn (escape_field (title j)) (\<lambda>title'.
     bind_exn (escape_field (department j)) (\<lambda>department'.
     bind_exn (escape_field (team j)) (\<lambda>team'.
     bind_exn (escape_field (location j)) (\<lambda>location'.
     bind_exn (escape_field (employment_type j)) (\<lambda>emp_type.
     bind_exn (pub_date_of (published_at j)) (\<lambda>pub_date.
       let remote_tag = (if truthy (is_remote j) then '' (Remote)'' else []);
           dept_line = (if team' \<noteq> []
                        then department' @ [CHR '' '', CHR 0xE2, CHR 0x80, CHR 0xBA, CHR '' ''] @ team'
                        else department')
       in Inr ([CHR 0xF0, CHR 0x9F, CHR 0x86, CHR 0x95] @ '' *New Job Alert* on '' @ platform'
                 @ [CHR 0x0A, CHR 0x0A]
               @ ''*'' @ title' @ ''*'' @ [CHR 0x0A]
               @ [CHR 0xF0, CHR 0x9F, CHR 0x8F, CHR 0xA2] @ '' '' @ dept_line @ [CHR 0x0A]
               @ [CHR 0xF0, CHR 0x9F, CHR 0x93, CHR 0x8D] @ '' '' @ location' @ remote_tag
                 @ [CHR 0x0A]
               @ [CHR 0xF0, CHR 0x9F, CHR 0x92, CHR 0xBC] @ '' '' @ emp_type @ [CHR 0x0A]
               @ [CHR 0xF0, CHR 0x9F, CHR 0x93, CHR 0x85] @ '' Published: '' @ pub_date
                 @ [CHR 0x0A, CHR 0x0A]
               @ [CHR 0xF0, CHR 0x9F, CHR 0x94, CHR 0x97] @ '' [View Job]('' @ py_str (job_url j)
                 @ '')'' @ [CHR 0x0A]
               @ [CHR 0xE2, CHR 0x9C, CHR 0x85] @ '' [Apply Now]('' @ py_str (apply_url j)
                 @ '')''))))))))"

section \<open>Main\<close>

definition BOARDS :: "board list" where
  "BOARDS =
     [\<lparr> name = ''Scale Army Careers'',
        url = ''https://api.ashbyhq.com/posting-api/job-board/Scale%20Army%20Careers'' \<rparr>]"

text \<open>
  What one run meets: the two credentials from the environment, jobs.json as the run
  finds it, the answer of each GET by URL, how far the write of jobs.json gets, and
  whether each POST succeeds.
\<close>

record env =
  TELEGRAM_BOT_TOKEN :: string
  TELEGRAM_CHAT_ID :: string
  jobs_file :: file_state
  http_get :: "string \<Rightarrow> http_result"
  write_result :: write_outcome
  http_post :: "nat \<Rightarrow> bool"

text \<open>
  What one run leaves: the exception that ended it (if one did), jobs.json afterwards,
  and its effects in order.
\<close>

record run =
  raised :: "exn option"
  file_after :: file_state
  events :: "event list"

text \<open>
  Step 2 of \<open>main\<close>, the loop over the boards. An exception that leaves \<open>fetch_jobs\<close>
  leaves the loop. \<open>platforms_checked\<close> only feeds a log line.
\<close>

fun fetch_all :: "board list \<Rightarrow> (string \<Rightarrow> http_result) \<Rightarrow> (exn + job list) \<times> event list" where
  "fetch_all [] get = (Inr [], [])"
| "fetch_all (b # bs) get =
     (case fetch_jobs b (get (url b)) of
        (Inl e, ev) \<Rightarrow> (Inl e, Log INFO # ev)
      | (Inr board_jobs, ev) \<Rightarrow>
          (case fetch_all bs get of
             (Inl e, ev') \<Rightarrow> (Inl e, Log INFO # ev @ ev')
           | (Inr rest, ev') \<Rightarrow>
               (Inr ((if board_jobs \<noteq> [] then board_jobs else []) @ rest), Log INFO # ev @ ev')))"

text \<open>\<open>{job["id"] for job in all_jobs}\<close> and \<open>{job["id"]: job for job in all_jobs}\<close>\<close>

definition current_ids_of :: "job list \<Rightarrow> json set" where
  "current_ids_of all_jobs = set (map (\<lambda>j. JStr (ident j)) all_jobs)"

definition job_by_id_of :: "job list \<Rightarrow> (string \<rightharpoonup> job)" where
  "job_by_id_of all_jobs = fold (\<lambda>j m. m(ident j \<mapsto> j)) all_jobs Map.empty"

text \<open>Step 4 and step 5 of \<open>main\<close>: the diff and the set that is written.\<close>

definition new_ids :: "json set \<Rightarrow> json set \<Rightarrow> json set" where
  "new_ids current_ids seen_ids = current_ids - seen_ids"

definition removed_ids :: "json set \<Rightarrow> json set \<Rightarrow> json set" where
  "removed_ids current_ids seen_ids = seen_ids - current_ids"

definition updated_ids :: "json set \<Rightarrow> json set \<Rightarrow> json set" where
  "updated_ids current_ids seen_ids =
     (seen_ids \<union> new_ids current_ids seen_ids) - removed_ids current_ids seen_ids"

text \<open>
  The loop of step 6. An exception from \<open>format_new_job_message\<close> leaves the loop and
  the run; a failed send does not.
\<close>

fun notify ::
  "string list \<Rightarrow> (string \<rightharpoonup> job) \<Rightarrow> (nat \<Rightarrow> bool) \<Rightarrow> nat \<Rightarrow> exn option \<times> event list" where
  "notify [] job_by_id post n = (None, [])"
| "notify (job_id # rest) job_by_id post n =
     (case job_by_id job_id of
        None \<Rightarrow> (Some KeyError, [])
      | Some job \<Rightarrow>
          (case format_new_job_message job of
             Inl e \<Rightarrow> (Some e, [])
           | Inr message \<Rightarrow>
               (case send_telegram_message message post n of
                  (success, ev, n') \<Rightarrow>
                    (case notify rest job_by_id post n' of
                       (r, ev') \<Rightarrow> (r, ev @ (if success then [Log INFO] else []) @ ev')))))"

text \<open>Steps 4 to 6 of \<open>main\<close>: diff, write, then notify. The unused timestamp is left out.\<close>

definition steady_state ::
  "env \<Rightarrow> json set \<Rightarrow> job list \<Rightarrow> exn option \<times> file_state \<times> event list" where
  "steady_state e seen_ids all_jobs =
     (let current_ids = current_ids_of all_jobs;
          job_by_id = job_by_id_of all_jobs;
          new = new_ids current_ids seen_ids;
          removed = removed_ids current_ids seen_ids;
          updated = updated_ids current_ids seen_ids
      in case save_seen_ids updated (write_result e) (jobs_file e) of
           (Some x, f, ev) \<Rightarrow> (Some x, f, ev)
         | (None, f, ev) \<Rightarrow>
             (let ev_removed = (if removed \<noteq> {} then [Log INFO] else [])
              in if new \<noteq> {}
                 then (case py_sorted new of
                         Inl x \<Rightarrow> (Some x, f, ev @ ev_removed @ [Log INFO])
                       | Inr order \<Rightarrow>
                           (case notify order job_by_id (http_post e) 0 of
                              (None, ev') \<Rightarrow> (None, f, ev @ ev_removed @ [Log INFO] @ ev' @ [Log INFO])
                            | (Some x, ev') \<Rightarrow> (Some x, f, ev @ ev_removed @ [Log INFO] @ ev')))
                 else (None, f, ev @ ev_removed @ [Log INFO, Log INFO])))"

text \<open>Step 3 of \<open>main\<close>: the first run writes the current ids and returns.\<close>

definition first_run :: "env \<Rightarrow> job list \<Rightarrow> exn option \<times> file_state \<times> event list" where
  "first_run e all_jobs =
     (case save_seen_ids (current_ids_of all_jobs) (write_result e) (jobs_file e) of
        (Some x, f, ev) \<Rightarrow> (Some x, f, ev)
      | (None, f, ev) \<Rightarrow> (None, f, ev @ [Log INFO]))"

text \<open>\<open>main\<close>, with the list of boards as a parameter.\<close>

definition main_with :: "board list \<Rightarrow> env \<Rightarrow> run" where
  "main_with boards e =
     (if TELEGRAM_BOT_TOKEN e = [] \<or> TELEGRAM_CHAT_ID e = []
      then \<lparr> raised = Some SystemExit, file_after = jobs_file e, events = [] \<rparr>
      else (case load_seen_ids (jobs_file e) of
              (Inl x, ev0) \<Rightarrow>
                \<lparr> raised = Some x, file_after = jobs_file e, events = Log INFO # ev0 \<rparr>
            | (Inr (seen_ids, is_first_run), ev0) \<Rightarrow>
                (case fetch_all boards (http_get e) of
                   (Inl x, ev1) \<Rightarrow>
                     \<lparr> raised = Some x, file_after = jobs_file e, events = Log INFO # ev0 @ ev1 \<rparr>
                 | (Inr all_jobs, ev1) \<Rightarrow>
                     if all_jobs = []
                     then \<lparr> raised = None, file_after = jobs_file e,
                            events = Log INFO # ev0 @ ev1 @ [Log WARNING] \<rparr>
                     else (case (if is_first_run then first_run e all_jobs
                                 else steady_state e seen_ids all_jobs) of
                             (r, f, ev2) \<Rightarrow>
                               \<lparr> raised = r, file_after = f,
                                  events = Log INFO # ev0 @ ev1 @ ev2 \<rparr>))))"

definition main :: "env \<Rightarrow> run" where
  "main e = main_with BOARDS e"

section \<open>Reading a run\<close>

text \<open>The writes of jobs.json and the POSTs to Telegram among the effects of a run.\<close>

fun is_write :: "event \<Rightarrow> bool" where
  "is_write (FileWrite ids) = True"
| "is_write ev = False"

fun is_post :: "event \<Rightarrow> bool" where
  "is_post (HttpPost t k) = True"
| "is_post ev = False"

text \<open>The messages whose sending was attempted, in order: the first POST of each.\<close>

fun attempted :: "event list \<Rightarrow> string list" where
  "attempted [] = []"
| "attempted (HttpPost t k # evs) = (if k = 0 then t # attempted evs else attempted evs)"
| "attempted (ev # evs) = attempted evs"

fun is_ok :: "exn + 'a \<Rightarrow> bool" where
  "is_ok (Inr x) = True"
| "is_ok (Inl e) = False"

text \<open>\<open>format_new_job_message(job_by_id[job_id])\<close>, the message of one turn of the loop.\<close>

definition message_for :: "(string \<rightharpoonup> job) \<Rightarrow> string \<Rightarrow> exn + string" where
  "message_for job_by_id job_id =
     (case job_by_id job_id of None \<Rightarrow> Inl KeyError | Some j \<Rightarrow> format_new_job_message j)"

section \<open>Sample inputs\<close>

text \<open>
  Concrete inputs at which the theorems are instantiated: an Ashby response with two
  postings, the two jobs \<open>normalise_job\<close> makes of them, and a run that finds a
  snapshot with one id that is still posted and one that is gone.
\<close>

definition sample_raw :: "string \<Rightarrow> string \<Rightarrow> json" where
  "sample_raw i t = JObj [(''id'', JStr i), (''title'', JStr t)]"

definition sample_job :: "string \<Rightarrow> string \<Rightarrow> string \<Rightarrow> job" where
  "sample_job p i t =
     \<lparr> ident = p @ '':'' @ i, platform = p, title = JStr t, department = JStr ''Unknown'',
       team = JStr [], location = JStr ''Unknown'', is_remote = JBool False,
       employment_type = JStr [], published_at = JStr [], job_url = JStr [],
       apply_url = JStr [] \<rparr>"

definition sample_response :: http_result where
  "sample_response =
     Response 200 (Some (JObj [(''jobs'', JArr [sample_raw ''2'' ''Developer'', sample_raw ''1'' ''Designer''])]))"

definition sample_env :: env where
  "sample_env =
     \<lparr> TELEGRAM_BOT_TOKEN = ''token'', TELEGRAM_CHAT_ID = ''chat'',
       jobs_file = Json (snapshot_doc [''Scale Army Careers:1'', ''Scale Army Careers:9'']),
       http_get = (\<lambda>u. sample_response), write_result = WriteOk, http_post = (\<lambda>n. True) \<rparr>"

definition sample_jobs :: "job list" where
  "sample_jobs = [sample_job ''Scale Army Careers'' ''2'' ''Developer'',
                  sample_job ''Scale Army Careers'' ''1'' ''Designer'']"

text \<open>
  Two boards of which the first times out, met by a run whose snapshot holds an id of
  each; and a response in which the posting 2 has the title \<open>null\<close>.
\<close>

definition two_boards :: "board list" where
  "two_boards = [\<lparr> name = ''Alpha'', url = ''https://alpha'' \<rparr>,
                 \<lparr> name = ''Beta'', url = ''https://beta'' \<rparr>]"

definition one_down_env :: env where
  "one_down_env =
     \<lparr> TELEGRAM_BOT_TOKEN = ''token'', TELEGRAM_CHAT_ID = ''chat'',
       jobs_file = Json (snapshot_doc [''Alpha:7'', ''Beta:1'']),
       http_get = (\<lambda>u. if u = ''https://alpha'' then RaisesTimeout else sample_response),
       write_result = WriteOk, http_post = (\<lambda>n. True) \<rparr>"

definition null_title_response :: http_result where
  "null_title_response =
     Response 200 (Some (JObj [(''jobs'', JArr [JObj [(''id'', JStr ''2''), (''title'', JNull)],
                                               sample_raw ''3'' ''Recruiter''])]))"

definition null_title_env :: env where
  "null_title_env = sample_env \<lparr> http_get := (\<lambda>u. null_title_response) \<rparr>"

section \<open>Auxiliary facts\<close>

subsection \<open>The diff and the sort\<close>

text \<open>
  The set that is written is the current set, whose members are all \<open>str\<close>, so neither
  sort of the run raises.
\<close>

lemma updated_ids_current: "updated_ids C P = C"
  unfolding updated_ids_def new_ids_def removed_ids_def by blast

lemma is_str_current: "v \<in> current_ids_of jobs \<Longrightarrow> is_str v"
  by (auto simp: current_ids_of_def)

lemma the_str_current: "the_str ` current_ids_of jobs = ident ` set jobs"
  by (force simp: current_ids_of_def image_iff)

lemma JStr_ident_current: "JStr ` ident ` set jobs = current_ids_of jobs"
  by (auto simp: current_ids_of_def)

lemma JStr_the_str: "\<forall>v \<in> ids. is_str v \<Longrightarrow> JStr ` the_str ` ids = ids"
proof -
  assume a: "\<forall>v \<in> ids. is_str v"
  have "\<And>v. is_str v \<Longrightarrow> JStr (the_str v) = v"
    by (case_tac v) auto
  with a show ?thesis by (force simp: image_iff)
qed

lemma py_sorted_current:
  "py_sorted (current_ids_of jobs) = Inr (sorted_list_of_set (ident ` set jobs))"
  by (simp add: py_sorted_def is_str_current the_str_current)

lemma py_sorted_new:
  "py_sorted (new_ids (current_ids_of jobs) seen) =
     Inr (sorted_list_of_set (the_str ` (current_ids_of jobs - seen)))"
  by (auto simp: py_sorted_def is_str_current new_ids_def)

subsection \<open>Saving and loading\<close>

text \<open>
  A save of the current ids cannot raise, and a snapshot that was written loads back as
  the set of its ids. Loading makes no write and no POST.
\<close>

lemma save_current:
  "save_seen_ids (current_ids_of jobs) w f =
     (None, save_progress (steps_done w) (sorted_list_of_set (ident ` set jobs)) f,
      FileWrite (sorted_list_of_set (ident ` set jobs)) # (if w = WriteOk then [] else [Log ERROR]))"
  by (simp add: save_seen_ids_def py_sorted_current)

lemma load_snapshot_doc:
  "load_seen_ids (Json (snapshot_doc xs)) = (Inr (JStr ` set xs, False), [])"
proof -
  have "list_all hashable (map JStr xs)" by (induction xs) auto
  then show ?thesis
    by (simp add: load_seen_ids_def snapshot_doc_def dict_get_def py_set_def)
qed

lemma load_events:
  "load_seen_ids f = (res, ev) \<Longrightarrow> filter is_write ev = [] \<and> filter is_post ev = []"
  by (auto simp: load_seen_ids_def split: sum.splits if_splits json.splits)

lemma load_seen_ids_fallbacks:
  "load_seen_ids Missing = (Inr ({}, True), []) \<and>
   load_seen_ids NotJson = (Inr ({}, False), [Log WARNING]) \<and>
   load_seen_ids Unreadable = (Inr ({}, False), [Log WARNING])"
  by (simp add: load_seen_ids_def)

subsection \<open>Fetching\<close>

text \<open>
  Fetching makes no write and no POST; every job a board returns has an id in the
  namespace of the board, and colon-free names keep the namespaces apart.
\<close>

lemma fetch_jobs_events:
  "fetch_jobs b r = (res, ev) \<Longrightarrow> filter is_write ev = [] \<and> filter is_post ev = []"
  by (auto simp: fetch_jobs_def split: sum.splits if_splits)

lemma fetch_all_events:
  "fetch_all boards get = (res, ev) \<Longrightarrow> filter is_write ev = [] \<and> filter is_post ev = []"
proof (induction boards arbitrary: res ev)
  case Nil
  then show ?case by simp
next
  case (Cons b bs)
  obtain r1 e1 where f1: "fetch_jobs b (get (url b)) = (r1, e1)"
    by (cases "fetch_jobs b (get (url b))") auto
  obtain r2 e2 where f2: "fetch_all bs get = (r2, e2)"
    by (cases "fetch_all bs get") auto
  from fetch_jobs_events[OF f1] Cons.IH[OF f2] Cons.prems f1 f2
  show ?case by (auto split: sum.splits)
qed

lemma fetch_all_empty:
  assumes "\<forall>b \<in> set boards. fst (fetch_jobs b (get (url b))) = Inr []"
  shows "fst (fetch_all boards get) = Inr []"
  using assms
proof (induction boards)
  case Nil
  show ?case by simp
next
  case (Cons b bs)
  then have 1: "fst (fetch_jobs b (get (url b))) = Inr []" and 2: "fst (fetch_all bs get) = Inr []"
    by simp_all
  then show ?case
    by (cases "fetch_jobs b (get (url b))"; cases "fetch_all bs get") simp
qed

lemma fetch_jobs_failures:
  "fetch_jobs b RaisesTimeout = (Inr [], [HttpGet (url b), Log ERROR]) \<and>
   fetch_jobs b RaisesRequestException = (Inr [], [HttpGet (url b), Log ERROR]) \<and>
   fetch_jobs b (Response 503 body) = (Inr [], [HttpGet (url b), Log ERROR]) \<and>
   fetch_jobs b (Response 200 None) = (Inr [], [HttpGet (url b), Log ERROR])"
  by (simp add: fetch_jobs_def fetch_body_def is_ValueError_def)

lemma ident_local:
  "normalise_job r p = Inr k \<Longrightarrow> ident k = p @ '':'' @ py_str (local_job_id r)"
  by (auto simp: normalise_job_def Let_def split: if_splits)

lemma local_job_id_same:
  assumes "map_of r ''id'' = map_of raw ''id''"
    and "map_of r ''title'' = map_of raw ''title''"
    and "map_of r ''publishedAt'' = map_of raw ''publishedAt''"
  shows "local_job_id r = local_job_id raw"
  unfolding local_job_id_def dict_get_def assms ..

lemma normalise_job_prefix:
  "normalise_job raw nm = Inr j \<Longrightarrow> \<exists>x. ident j = nm @ '':'' @ x"
  by (auto simp: normalise_job_def Let_def split: if_splits)

lemma normalise_all_prefix:
  "normalise_all xs nm = Inr js \<Longrightarrow> \<forall>j \<in> set js. \<exists>x. ident j = nm @ '':'' @ x"
proof (induction xs nm arbitrary: js rule: normalise_all.induct)
  case (1 nm)
  then show ?case by simp
next
  case (2 raw rest nm)
  from "2.prems" obtain j js' where
    j: "normalise_job raw nm = Inr j" "normalise_all rest nm = Inr js'" "js = j # js'"
    by (auto split: sum.splits)
  from "2.IH"[OF j(1) j(2)] normalise_job_prefix[OF j(1)] j(3) show ?case by simp
qed simp_all

lemma fetch_jobs_prefix:
  assumes "fetch_jobs b r = (Inr js, ev)"
  shows "\<forall>j \<in> set js. \<exists>x. ident j = name b @ '':'' @ x"
proof (cases "fetch_body (name b) r")
  case (Inl x)
  with assms have "js = []" by (auto simp: fetch_jobs_def split: if_splits)
  then show ?thesis by simp
next
  case (Inr js')
  with assms have js: "js' = js" by (simp add: fetch_jobs_def)
  from Inr have "\<exists>xs. normalise_all xs (name b) = Inr js'"
    by (auto simp: fetch_body_def split: http_result.splits if_splits option.splits json.splits sum.splits)
  with js show ?thesis using normalise_all_prefix by blast
qed

lemma fetch_all_origin:
  "fetch_all boards get = (Inr jobs, ev) \<Longrightarrow>
     \<forall>j \<in> set jobs. \<exists>b \<in> set boards. \<exists>js ev'. fetch_jobs b (get (url b)) = (Inr js, ev') \<and> j \<in> set js"
proof (induction boards arbitrary: jobs ev)
  case Nil
  then show ?case by simp
next
  case (Cons b bs)
  obtain r1 e1 where f1: "fetch_jobs b (get (url b)) = (r1, e1)"
    by (cases "fetch_jobs b (get (url b))") auto
  obtain r2 e2 where f2: "fetch_all bs get = (r2, e2)"
    by (cases "fetch_all bs get") auto
  from Cons.prems f1 f2 obtain js rest where r: "r1 = Inr js" "r2 = Inr rest" "jobs = js @ rest"
    by (auto split: sum.splits if_splits)
  from Cons.IH[of rest e2] f2 r
  have "\<forall>j \<in> set rest. \<exists>b \<in> set bs. \<exists>js ev'. fetch_jobs b (get (url b)) = (Inr js, ev') \<and> j \<in> set js"
    by simp
  with f1 r show ?case by fastforce
qed

lemma name_before_colon:
  "CHR '':'' \<notin> set n \<Longrightarrow> takeWhile (\<lambda>c. c \<noteq> CHR '':'') (n @ '':'' @ x) = n"
  by (induction n) auto

lemma namespaces_apart:
  assumes "CHR '':'' \<notin> set n" and "CHR '':'' \<notin> set n'" and "n @ '':'' @ x = n' @ '':'' @ y"
  shows "n = n'"
  using name_before_colon[OF assms(1), of x] name_before_colon[OF assms(2), of y] assms(3)
  by simp

lemma distinct_names:
  assumes "distinct (map name boards)" and "b \<in> set boards" and "b' \<in> set boards"
    and "name b = name b'"
  shows "b = b'"
  using assms by (meson distinct_map inj_onD)

subsection \<open>The notification loop\<close>

text \<open>
  The loop writes nothing; the messages it attempts are those of its ids, in order, up to
  the first one that fails to format, and that failure is the exception it ends with.
  The lookup of an id among the fetched jobs finds the last job with that id.
\<close>

lemma attempted_append: "attempted (xs @ ys) = attempted xs @ attempted ys"
  by (induction xs rule: attempted.induct) auto

lemma attempted_no_post: "filter is_post ev = [] \<Longrightarrow> attempted ev = []"
  by (induction ev rule: attempted.induct) (auto split: if_splits)

lemma send_no_write: "send_telegram_message t post n = (ok, ev, n') \<Longrightarrow> filter is_write ev = []"
  by (auto simp: send_telegram_message_def split: if_splits)

lemma send_attempted: "send_telegram_message t post n = (ok, ev, n') \<Longrightarrow> attempted ev = [t]"
  by (auto simp: send_telegram_message_def split: if_splits)

lemma notify_no_write: "filter is_write (snd (notify order m post n)) = []"
proof (induction order arbitrary: n)
  case Nil
  show ?case by simp
next
  case (Cons i order)
  show ?case
  proof (cases "m i")
    case None
    then show ?thesis by simp
  next
    case (Some j)
    show ?thesis
    proof (cases "format_new_job_message j")
      case (Inl x)
      with Some show ?thesis by simp
    next
      case (Inr msg)
      obtain ok ev n' where s: "send_telegram_message msg post n = (ok, ev, n')"
        by (cases "send_telegram_message msg post n") auto
      obtain r ev' where r: "notify order m post n' = (r, ev')"
        by (cases "notify order m post n'") auto
      from Cons.IH[of n'] r have "filter is_write ev' = []" by simp
      with Some Inr s r send_no_write[OF s] show ?thesis by simp
    qed
  qed
qed

lemma notify_attempted:
  "map Inr (attempted (snd (notify order m post n))) = takeWhile is_ok (map (message_for m) order)"
proof (induction order arbitrary: n)
  case Nil
  show ?case by simp
next
  case (Cons i order)
  show ?case
  proof (cases "m i")
    case None
    then show ?thesis by (simp add: message_for_def)
  next
    case (Some j)
    show ?thesis
    proof (cases "format_new_job_message j")
      case (Inl x)
      with Some show ?thesis by (simp add: message_for_def)
    next
      case (Inr msg)
      obtain ok ev n' where s: "send_telegram_message msg post n = (ok, ev, n')"
        by (cases "send_telegram_message msg post n") auto
      obtain r ev' where r: "notify order m post n' = (r, ev')"
        by (cases "notify order m post n'") auto
      from Cons.IH[of n'] r
      have "map Inr (attempted ev') = takeWhile is_ok (map (message_for m) order)" by simp
      moreover have "message_for m i = Inr msg"
        using Some Inr by (simp add: message_for_def)
      ultimately show ?thesis
        using Some Inr s r send_attempted[OF s] by (simp add: attempted_append)
    qed
  qed
qed

lemma notify_raised:
  "fst (notify order m post n) =
     (case dropWhile is_ok (map (message_for m) order) of Inl x # rest \<Rightarrow> Some x | _ \<Rightarrow> None)"
proof (induction order arbitrary: n)
  case Nil
  show ?case by simp
next
  case (Cons i order)
  show ?case
  proof (cases "m i")
    case None
    then show ?thesis by (simp add: message_for_def)
  next
    case (Some j)
    show ?thesis
    proof (cases "format_new_job_message j")
      case (Inl x)
      with Some show ?thesis by (simp add: message_for_def)
    next
      case (Inr msg)
      obtain ok ev n' where s: "send_telegram_message msg post n = (ok, ev, n')"
        by (cases "send_telegram_message msg post n") auto
      obtain r ev' where r: "notify order m post n' = (r, ev')"
        by (cases "notify order m post n'") auto
      from Cons.IH[of n'] r
      have "r = (case dropWhile is_ok (map (message_for m) order) of Inl x # rest \<Rightarrow> Some x | _ \<Rightarrow> None)"
        by simp
      moreover have "message_for m i = Inr msg"
        using Some Inr by (simp add: message_for_def)
      ultimately show ?thesis
        using Some Inr s r by simp
    qed
  qed
qed

lemma find_append_cases:
  "find P (xs @ ys) = (case find P xs of None \<Rightarrow> find P ys | Some x \<Rightarrow> Some x)"
  by (induction xs) auto

lemma find_SomeD: "find P xs = Some x \<Longrightarrow> x \<in> set xs \<and> P x"
  by (induction xs) (auto split: if_splits)

lemma job_by_id_fold:
  "fold (\<lambda>j m. m(ident j \<mapsto> j)) jobs m0 i =
     (case find (\<lambda>j. ident j = i) (rev jobs) of Some j \<Rightarrow> Some j | None \<Rightarrow> m0 i)"
proof (induction jobs arbitrary: m0)
  case Nil
  show ?case by simp
next
  case (Cons j jobs)
  have "fold (\<lambda>j m. m(ident j \<mapsto> j)) (j # jobs) m0 i =
          fold (\<lambda>j m. m(ident j \<mapsto> j)) jobs (m0(ident j \<mapsto> j)) i"
    by (simp del: fun_upd_apply)
  also have "\<dots> = (case find (\<lambda>j. ident j = i) (rev jobs) of
                     Some j' \<Rightarrow> Some j' | None \<Rightarrow> (m0(ident j \<mapsto> j)) i)"
    by (rule Cons.IH)
  also have "\<dots> = (case find (\<lambda>j. ident j = i) (rev (j # jobs)) of
                     Some j' \<Rightarrow> Some j' | None \<Rightarrow> m0 i)"
    by (simp add: find_append_cases split: option.splits)
  finally show ?case .
qed

lemma job_by_id_last:
  "job_by_id_of jobs i = find (\<lambda>j. ident j = i) (rev jobs)"
  by (simp add: job_by_id_of_def job_by_id_fold split: option.splits)

lemma job_by_id_found:
  assumes "i \<in> ident ` set jobs"
  shows "\<exists>j \<in> set jobs. job_by_id_of jobs i = Some j \<and> ident j = i"
proof -
  from assms have "\<exists>j. find (\<lambda>j. ident j = i) (rev jobs) = Some j"
    by (cases "find (\<lambda>j. ident j = i) (rev jobs)") (auto simp: find_None_iff)
  then obtain j where f: "find (\<lambda>j. ident j = i) (rev jobs) = Some j" by blast
  have "j \<in> set jobs \<and> ident j = i"
    using find_SomeD[OF f] by simp
  with f show ?thesis by (auto simp: job_by_id_last)
qed

subsection \<open>The run as a whole\<close>

text \<open>
  Steps 4 to 6 with the sorts resolved, and what a steady-state run and a first run
  come to once the credentials, the load and the fetch are known. In a steady-state run
  the notifications attempted are the messages of the new ids in ascending order, up to
  the first message that fails to format; all of them when every message formats.
\<close>

lemma steady_state_eq:
  "steady_state e seen jobs =
     (let ids = sorted_list_of_set (ident ` set jobs);
          f = save_progress (steps_done (write_result e)) ids (jobs_file e);
          wr = FileWrite ids # (if write_result e = WriteOk then [] else [Log ERROR]);
          rm = (if seen - current_ids_of jobs \<noteq> {} then [Log INFO] else []);
          new = current_ids_of jobs - seen
      in if new \<noteq> {}
         then (case notify (sorted_list_of_set (the_str ` new)) (job_by_id_of jobs) (http_post e) 0 of
                 (None, ev') \<Rightarrow> (None, f, wr @ rm @ [Log INFO] @ ev' @ [Log INFO])
               | (Some x, ev') \<Rightarrow> (Some x, f, wr @ rm @ [Log INFO] @ ev'))
         else (None, f, wr @ rm @ [Log INFO, Log INFO]))"
  unfolding steady_state_def Let_def
  by (simp add: updated_ids_current save_current py_sorted_new)
     (simp add: new_ids_def removed_ids_def)

lemma main_steady:
  assumes "TELEGRAM_BOT_TOKEN e \<noteq> []" and "TELEGRAM_CHAT_ID e \<noteq> []"
    and "load_seen_ids (jobs_file e) = (Inr (seen, False), ev0)"
    and "fetch_all boards (http_get e) = (Inr jobs, ev1)" and "jobs \<noteq> []"
  shows "main_with boards e =
           (case steady_state e seen jobs of
              (r, f, ev2) \<Rightarrow> \<lparr> raised = r, file_after = f, events = Log INFO # ev0 @ ev1 @ ev2 \<rparr>)"
  using assms by (simp add: main_with_def)

lemma main_first:
  assumes "TELEGRAM_BOT_TOKEN e \<noteq> []" and "TELEGRAM_CHAT_ID e \<noteq> []"
    and "load_seen_ids (jobs_file e) = (Inr (seen, True), ev0)"
    and "fetch_all boards (http_get e) = (Inr jobs, ev1)" and "jobs \<noteq> []"
  shows "main_with boards e =
           \<lparr> raised = None,
             file_after = save_progress (steps_done (write_result e))
                            (sorted_list_of_set (ident ` set jobs)) (jobs_file e),
             events = Log INFO # ev0 @ ev1 @
                        FileWrite (sorted_list_of_set (ident ` set jobs)) #
                        (if write_result e = WriteOk then [] else [Log ERROR]) @ [Log INFO] \<rparr>"
  using assms by (simp add: main_with_def first_run_def save_current)

lemma steady_state_file:
  "fst (snd (steady_state e seen jobs)) =
     save_progress (steps_done (write_result e)) (sorted_list_of_set (ident ` set jobs)) (jobs_file e)"
  by (simp add: steady_state_eq Let_def split: prod.splits option.splits)

lemma steady_state_events:
  "\<exists>post. snd (snd (steady_state e seen jobs)) =
            FileWrite (sorted_list_of_set (ident ` set jobs)) #
            (if write_result e = WriteOk then [] else [Log ERROR]) @ post
          \<and> filter is_write post = []
          \<and> attempted post =
              attempted (snd (notify (sorted_list_of_set (the_str ` (current_ids_of jobs - seen)))
                                (job_by_id_of jobs) (http_post e) 0))"
proof (cases "current_ids_of jobs - seen = {}")
  case True
  have 1: "attempted (snd (notify (sorted_list_of_set (the_str ` (current_ids_of jobs - seen)))
                             (job_by_id_of jobs) (http_post e) 0)) = []"
    unfolding True by simp
  have 2: "snd (snd (steady_state e seen jobs)) =
             FileWrite (sorted_list_of_set (ident ` set jobs)) #
             (if write_result e = WriteOk then [] else [Log ERROR]) @
             ((if seen - current_ids_of jobs \<noteq> {} then [Log INFO] else []) @ [Log INFO, Log INFO])"
    unfolding steady_state_eq Let_def True by simp
  show ?thesis
    unfolding 1 2
    by (rule exI[of _ "(if seen - current_ids_of jobs \<noteq> {} then [Log INFO] else []) @ [Log INFO, Log INFO]"])
       simp
next
  case False
  let ?order = "sorted_list_of_set (the_str ` (current_ids_of jobs - seen))"
  obtain r ev' where n: "notify ?order (job_by_id_of jobs) (http_post e) 0 = (r, ev')"
    by (cases "notify ?order (job_by_id_of jobs) (http_post e) 0") auto
  from notify_no_write[of ?order "job_by_id_of jobs" "http_post e" 0] n
  have nw: "filter is_write ev' = []" by simp
  show ?thesis
  proof (cases r)
    case None
    with False n nw show ?thesis
      by (simp add: steady_state_eq Let_def attempted_append)
  next
    case (Some x)
    with False n nw show ?thesis
      by (simp add: steady_state_eq Let_def attempted_append)
  qed
qed

lemma steady_writes:
  assumes "TELEGRAM_BOT_TOKEN e \<noteq> []" and "TELEGRAM_CHAT_ID e \<noteq> []"
    and "load_seen_ids (jobs_file e) = (Inr (seen, False), ev0)"
    and "fetch_all boards (http_get e) = (Inr jobs, ev1)" and "jobs \<noteq> []"
  shows "filter is_write (events (main_with boards e)) =
           [FileWrite (sorted_list_of_set (ident ` set jobs))]"
proof -
  obtain post where p:
    "snd (snd (steady_state e seen jobs)) =
       FileWrite (sorted_list_of_set (ident ` set jobs)) #
       (if write_result e = WriteOk then [] else [Log ERROR]) @ post"
    "filter is_write post = []"
    using steady_state_events[of e seen jobs] by blast
  have ev: "events (main_with boards e) =
              (Log INFO # ev0 @ ev1) @ FileWrite (sorted_list_of_set (ident ` set jobs)) #
              (if write_result e = WriteOk then [] else [Log ERROR]) @ post"
    using main_steady[OF assms] p(1) by (cases "steady_state e seen jobs") simp
  show ?thesis
    using load_events[OF assms(3)] fetch_all_events[OF assms(4)] p(2) by (simp add: ev)
qed

lemma steady_attempted:
  assumes "TELEGRAM_BOT_TOKEN e \<noteq> []" and "TELEGRAM_CHAT_ID e \<noteq> []"
    and "load_seen_ids (jobs_file e) = (Inr (seen, False), ev0)"
    and "fetch_all boards (http_get e) = (Inr jobs, ev1)" and "jobs \<noteq> []"
  shows "map Inr (attempted (events (main_with boards e))) =
           takeWhile is_ok
             (map (message_for (job_by_id_of jobs))
                (sorted_list_of_set (the_str ` new_ids (current_ids_of jobs) seen)))"
proof -
  obtain post where p:
    "snd (snd (steady_state e seen jobs)) =
       FileWrite (sorted_list_of_set (ident ` set jobs)) #
       (if write_result e = WriteOk then [] else [Log ERROR]) @ post"
    "attempted post =
       attempted (snd (notify (sorted_list_of_set (the_str ` (current_ids_of jobs - seen)))
                         (job_by_id_of jobs) (http_post e) 0))"
    using steady_state_events[of e seen jobs] by blast
  have ev: "events (main_with boards e) =
              (Log INFO # ev0 @ ev1) @ FileWrite (sorted_list_of_set (ident ` set jobs)) #
              (if write_result e = WriteOk then [] else [Log ERROR]) @ post"
    using main_steady[OF assms] p(1) by (cases "steady_state e seen jobs") simp
  have "attempted (Log INFO # ev0 @ ev1) = []"
    using load_events[OF assms(3)] fetch_all_events[OF assms(4)] by (simp add: attempted_no_post)
  then have "attempted (events (main_with boards e)) = attempted post"
    unfolding ev by (simp add: attempted_append)
  then show ?thesis
    by (simp add: p(2) notify_attempted new_ids_def)
qed

lemma steady_message_for:
  assumes "i \<in> set (sorted_list_of_set (the_str ` new_ids (current_ids_of jobs) seen))"
  shows "\<exists>j \<in> set jobs. ident j = i \<and>
           message_for (job_by_id_of jobs) i = format_new_job_message j"
proof -
  have "finite (the_str ` new_ids (current_ids_of jobs) seen)"
    by (simp add: new_ids_def current_ids_of_def)
  with assms have "i \<in> the_str ` new_ids (current_ids_of jobs) seen" by simp
  then have "i \<in> the_str ` current_ids_of jobs" by (auto simp: new_ids_def)
  then have "i \<in> ident ` set jobs" by (simp add: the_str_current)
  from job_by_id_found[OF this] show ?thesis
    by (auto simp: message_for_def)
qed

lemma steady_attempted_all:
  assumes "TELEGRAM_BOT_TOKEN e \<noteq> []" and "TELEGRAM_CHAT_ID e \<noteq> []"
    and "load_seen_ids (jobs_file e) = (Inr (seen, False), ev0)"
    and "fetch_all boards (http_get e) = (Inr jobs, ev1)" and "jobs \<noteq> []"
    and "\<forall>j \<in> set jobs. is_ok (format_new_job_message j)"
  shows "map Inr (attempted (events (main_with boards e))) =
           map (message_for (job_by_id_of jobs))
             (sorted_list_of_set (the_str ` new_ids (current_ids_of jobs) seen))"
proof -
  let ?order = "sorted_list_of_set (the_str ` new_ids (current_ids_of jobs) seen)"
  have "\<forall>r \<in> set (map (message_for (job_by_id_of jobs)) ?order). is_ok r"
  proof
    fix r assume "r \<in> set (map (message_for (job_by_id_of jobs)) ?order)"
    then obtain i where i: "i \<in> set ?order" "r = message_for (job_by_id_of jobs) i" by auto
    from steady_message_for[OF i(1)] i(2) assms(6) show "is_ok r" by auto
  qed
  then have "takeWhile is_ok (map (message_for (job_by_id_of jobs)) ?order) =
               map (message_for (job_by_id_of jobs)) ?order"
    by (simp only: takeWhile_eq_all_conv)
  with steady_attempted[OF assms(1-5)] show ?thesis by simp
qed

subsection \<open>The sample inputs\<close>

text \<open>
  What the functions return at the sample inputs.
\<close>

lemma sample_normalise: "normalise_job [(''id'', JStr (c # i)), (''title'', JStr t)] p = Inr (sample_job p (c # i) t)"
  by (simp add: normalise_job_def local_job_id_def dict_get_def employment_type_map_def Let_def sample_job_def)

lemma sample_fetch_jobs:
  "fetch_jobs b sample_response =
     (Inr [sample_job (name b) ''2'' ''Developer'', sample_job (name b) ''1'' ''Designer''], [HttpGet (url b)])"
  by (simp add: fetch_jobs_def fetch_body_def sample_response_def sample_raw_def dict_get_def sample_normalise)

lemma sample_fetch_all:
  "fetch_all BOARDS (http_get sample_env) =
     (Inr sample_jobs,
      [Log INFO, HttpGet ''https://api.ashbyhq.com/posting-api/job-board/Scale%20Army%20Careers''])"
  by (simp add: BOARDS_def sample_env_def sample_fetch_jobs sample_jobs_def)

lemma sample_load:
  "load_seen_ids (jobs_file sample_env) =
     (Inr ({JStr ''Scale Army Careers:1'', JStr ''Scale Army Careers:9''}, False), [])"
  by (simp add: sample_env_def load_snapshot_doc)

lemma sample_creds: "TELEGRAM_BOT_TOKEN sample_env \<noteq> []" "TELEGRAM_CHAT_ID sample_env \<noteq> []"
  by (simp_all add: sample_env_def)

lemma sample_nonempty: "sample_jobs \<noteq> []"
  by (simp add: sample_jobs_def)

lemma sorted_sample: "sorted_list_of_set (ident ` set sample_jobs) =
    [''Scale Army Careers:1'', ''Scale Army Careers:2'']"
  by code_simp

lemma one_down_fetch:
  "fetch_all two_boards (http_get one_down_env) =
     (Inr [sample_job ''Beta'' ''2'' ''Developer'', sample_job ''Beta'' ''1'' ''Designer''],
      [Log INFO, HttpGet ''https://alpha'', Log ERROR, Log INFO, HttpGet ''https://beta''])"
  by (simp add: two_boards_def one_down_env_def sample_fetch_jobs fetch_jobs_failures)

lemma one_down_load:
  "load_seen_ids (jobs_file one_down_env) = (Inr ({JStr ''Alpha:7'', JStr ''Beta:1''}, False), [])"
  by (simp add: one_down_env_def load_snapshot_doc)

section \<open>Write before notify\<close>

text \<open>
  Claim C1. In a steady-state run that gets past the empty-fetch guard, the effects of
  the run are: a part with no POST, then the write of the updated id set, followed at
  once by the error log line when the write fails, then the rest, which is where every
  POST lies. There is one write, so no POST comes before the write of the snapshot.
\<close>

theorem write_before_notify:
  assumes "TELEGRAM_BOT_TOKEN e \<noteq> []" and "TELEGRAM_CHAT_ID e \<noteq> []"
    and "load_seen_ids (jobs_file e) = (Inr (seen, False), ev0)"
    and "fetch_all boards (http_get e) = (Inr jobs, ev1)" and "jobs \<noteq> []"
  shows "\<exists>pre post.
           events (main_with boards e) =
             pre @ FileWrite (sorted_list_of_set (the_str ` updated_ids (current_ids_of jobs) seen)) #
                   (if write_result e = WriteOk then [] else [Log ERROR]) @ post \<and>
           filter is_post pre = [] \<and> filter is_write pre = [] \<and> filter is_write post = []"
proof -
  obtain post where p:
    "snd (snd (steady_state e seen jobs)) =
       FileWrite (sorted_list_of_set (ident ` set jobs)) #
       (if write_result e = WriteOk then [] else [Log ERROR]) @ post"
    "filter is_write post = []"
    using steady_state_events[of e seen jobs] by blast
  have ev: "events (main_with boards e) =
              (Log INFO # ev0 @ ev1) @ FileWrite (sorted_list_of_set (ident ` set jobs)) #
              (if write_result e = WriteOk then [] else [Log ERROR]) @ post"
    using main_steady[OF assms] p(1) by (cases "steady_state e seen jobs") simp
  have pre: "filter is_post (Log INFO # ev0 @ ev1) = []" "filter is_write (Log INFO # ev0 @ ev1) = []"
    using load_events[OF assms(3)] fetch_all_events[OF assms(4)] by simp_all
  show ?thesis
    unfolding updated_ids_current the_str_current
    using ev pre p(2) by blast
qed

text \<open>Claim C1 at the sample run, where the new posting 2 is notified after the write.\<close>

theorem write_before_notify_witness:
  "\<exists>pre post.
      events (main_with BOARDS sample_env) =
        pre @ FileWrite (sorted_list_of_set
                 (the_str ` updated_ids (current_ids_of sample_jobs)
                    {JStr ''Scale Army Careers:1'', JStr ''Scale Army Careers:9''})) #
              (if write_result sample_env = WriteOk then [] else [Log ERROR]) @ post \<and>
      filter is_post pre = [] \<and> filter is_write pre = [] \<and> filter is_write post = []"
  by (rule write_before_notify[OF sample_creds sample_load sample_fetch_all sample_nonempty])

section \<open>First run\<close>

text \<open>
  Claim C2. In a run where \<open>load_seen_ids\<close> reports a first run and the fetch returns a
  non-empty list, the only write of jobs.json is the write of the sorted list of the
  fetched ids, exactly the set of the fetched ids; no POST is made; and when the write
  succeeds the file loads back as that set.
\<close>

theorem first_run_silent:
  assumes "TELEGRAM_BOT_TOKEN e \<noteq> []" and "TELEGRAM_CHAT_ID e \<noteq> []"
    and "load_seen_ids (jobs_file e) = (Inr (seen, True), ev0)"
    and "fetch_all boards (http_get e) = (Inr jobs, ev1)" and "jobs \<noteq> []"
  shows "filter is_write (events (main_with boards e)) =
           [FileWrite (sorted_list_of_set (ident ` set jobs))] \<and>
         set (sorted_list_of_set (ident ` set jobs)) = ident ` set jobs \<and>
         filter is_post (events (main_with boards e)) = [] \<and>
         (write_result e = WriteOk \<longrightarrow>
            load_seen_ids (file_after (main_with boards e)) = (Inr (current_ids_of jobs, False), []))"
proof -
  note m = main_first[OF assms]
  from load_events[OF assms(3)] have l: "filter is_write ev0 = []" "filter is_post ev0 = []"
    by simp_all
  from fetch_all_events[OF assms(4)] have g: "filter is_write ev1 = []" "filter is_post ev1 = []"
    by simp_all
  have 1: "filter is_write (events (main_with boards e)) =
             [FileWrite (sorted_list_of_set (ident ` set jobs))]"
    by (simp add: m l g)
  have 2: "filter is_post (events (main_with boards e)) = []"
    by (simp add: m l g)
  have 3: "write_result e = WriteOk \<longrightarrow>
            load_seen_ids (file_after (main_with boards e)) = (Inr (current_ids_of jobs, False), [])"
    by (simp add: m numeral_2_eq_2 load_snapshot_doc JStr_ident_current)
  from 1 2 3 show ?thesis by simp
qed

text \<open>Claim C2 at the sample run with no jobs.json.\<close>

theorem first_run_silent_witness:
  "load_seen_ids (jobs_file (sample_env \<lparr> jobs_file := Missing \<rparr>)) = (Inr ({}, True), []) \<and>
   filter is_write (events (main_with BOARDS (sample_env \<lparr> jobs_file := Missing \<rparr>))) =
     [FileWrite [''Scale Army Careers:1'', ''Scale Army Careers:2'']] \<and>
   filter is_post (events (main_with BOARDS (sample_env \<lparr> jobs_file := Missing \<rparr>))) = [] \<and>
   load_seen_ids (file_after (main_with BOARDS (sample_env \<lparr> jobs_file := Missing \<rparr>))) =
     (Inr (current_ids_of sample_jobs, False), [])"
proof -
  let ?e = "sample_env \<lparr> jobs_file := Missing \<rparr>"
  have h1: "TELEGRAM_BOT_TOKEN ?e \<noteq> []" and h2: "TELEGRAM_CHAT_ID ?e \<noteq> []"
    by (simp_all add: sample_env_def)
  have h3: "load_seen_ids (jobs_file ?e) = (Inr ({}, True), [])"
    by (simp add: load_seen_ids_def)
  have h4: "fetch_all BOARDS (http_get ?e) =
     (Inr sample_jobs,
      [Log INFO, HttpGet ''https://api.ashbyhq.com/posting-api/job-board/Scale%20Army%20Careers''])"
    using sample_fetch_all by simp
  have w: "write_result ?e = WriteOk" by (simp add: sample_env_def)
  note t = first_run_silent[OF h1 h2 h3 h4 sample_nonempty]
  note a = t[THEN conjunct1, unfolded sorted_sample]
  note b = t[THEN conjunct2, THEN conjunct2, THEN conjunct1]
  note c = t[THEN conjunct2, THEN conjunct2, THEN conjunct2, THEN mp, OF w]
  from h3 a b c show ?thesis by simp
qed

section \<open>Empty fetch\<close>

text \<open>
  Claim C3. In a run where every board's fetch returns the empty list, jobs.json is not
  written and stays as it was, and no POST is made.
\<close>

theorem empty_fetch_skips:
  assumes "\<forall>b \<in> set boards. fst (fetch_jobs b (http_get e (url b))) = Inr []"
  shows "file_after (main_with boards e) = jobs_file e \<and>
         filter is_write (events (main_with boards e)) = [] \<and>
         filter is_post (events (main_with boards e)) = []"
proof -
  obtain ev1 where f: "fetch_all boards (http_get e) = (Inr [], ev1)"
    using fetch_all_empty[OF assms] by (cases "fetch_all boards (http_get e)") auto
  obtain res ev0 where l: "load_seen_ids (jobs_file e) = (res, ev0)"
    by (cases "load_seen_ids (jobs_file e)") auto
  from load_events[OF l] fetch_all_events[OF f] f l show ?thesis
    by (auto simp: main_with_def split: sum.splits prod.splits)
qed

text \<open>Claim C3 at the sample run with the board timing out.\<close>

theorem empty_fetch_skips_witness:
  "fst (fetch_jobs (hd BOARDS) RaisesTimeout) = Inr [] \<and>
   file_after (main_with BOARDS (sample_env \<lparr> http_get := (\<lambda>u. RaisesTimeout) \<rparr>)) =
     Json (snapshot_doc [''Scale Army Careers:1'', ''Scale Army Careers:9'']) \<and>
   filter is_write (events (main_with BOARDS (sample_env \<lparr> http_get := (\<lambda>u. RaisesTimeout) \<rparr>))) = [] \<and>
   filter is_post (events (main_with BOARDS (sample_env \<lparr> http_get := (\<lambda>u. RaisesTimeout) \<rparr>))) = []"
proof -
  let ?e = "sample_env \<lparr> http_get := (\<lambda>u. RaisesTimeout) \<rparr>"
  have h: "\<forall>b \<in> set BOARDS. fst (fetch_jobs b (http_get ?e (url b))) = Inr []"
    by (simp add: fetch_jobs_failures)
  have f: "jobs_file ?e = Json (snapshot_doc [''Scale Army Careers:1'', ''Scale Army Careers:9''])"
    by (simp add: sample_env_def)
  from empty_fetch_skips[OF h] show ?thesis
    by (simp add: f fetch_jobs_failures)
qed

section \<open>Loading the snapshot\<close>

text \<open>
  Claim C4 says that \<open>load_seen_ids\<close> never raises and answers every unparsable file
  with the empty set and \<open>is_first_run = False\<close>. The \<open>except\<close> clause names
  \<open>JSONDecodeError\<close> and \<open>IOError\<close> only: a file holding the JSON array \<open>[]\<close> makes
  \<open>data.get\<close> raise \<open>AttributeError\<close>, a file holding \<open>{"ids": null}\<close> makes \<open>set\<close> raise
  \<open>TypeError\<close>, and a file that is not UTF-8 makes the read raise \<open>UnicodeDecodeError\<close>;
  each leaves the function.
\<close>

theorem load_seen_ids_raises:
  "load_seen_ids (Json (JArr [])) = (Inl AttributeError, []) \<and>
   load_seen_ids (Json (JObj [(''ids'', JNull)])) = (Inl TypeError, []) \<and>
   load_seen_ids Undecodable = (Inl UnicodeDecodeError, [])"
  by (simp add: load_seen_ids_def dict_get_def py_set_def)

section \<open>The snapshot after a run\<close>

text \<open>
  Claim C5. For every pair of sets \<open>previous_ids\<close> and \<open>current\<close>, the set that step 5 writes,
  \<open>(previous_ids \<union> new_ids) - removed_ids\<close>, is \<open>current\<close>. So after a steady-state run whose
  write succeeds, jobs.json holds the sorted ids of this run's fetch, and the next load
  returns exactly the set of those ids.
\<close>

theorem snapshot_equals_current:
  assumes "TELEGRAM_BOT_TOKEN e \<noteq> []" and "TELEGRAM_CHAT_ID e \<noteq> []"
    and "load_seen_ids (jobs_file e) = (Inr (seen, False), ev0)"
    and "fetch_all boards (http_get e) = (Inr jobs, ev1)" and "jobs \<noteq> []"
    and "write_result e = WriteOk"
  shows "(\<forall>previous_ids current. updated_ids current previous_ids = current) \<and>
         file_after (main_with boards e) = Json (snapshot_doc (sorted_list_of_set (ident ` set jobs))) \<and>
         load_seen_ids (file_after (main_with boards e)) = (Inr (current_ids_of jobs, False), [])"
proof -
  have a: "\<forall>previous_ids current. updated_ids current previous_ids = current"
    unfolding updated_ids_def new_ids_def removed_ids_def by blast
  obtain r f ev2 where s: "steady_state e seen jobs = (r, f, ev2)"
    by (cases "steady_state e seen jobs") auto
  from steady_state_file[of e seen jobs] s assms(6)
  have f: "f = Json (snapshot_doc (sorted_list_of_set (ident ` set jobs)))"
    by (simp add: numeral_2_eq_2)
  from main_steady[OF assms(1-5)] s f
  have b: "file_after (main_with boards e) = Json (snapshot_doc (sorted_list_of_set (ident ` set jobs)))"
    by simp
  have c: "load_seen_ids (file_after (main_with boards e)) = (Inr (current_ids_of jobs, False), [])"
    by (simp add: b load_snapshot_doc JStr_ident_current)
  from a b c show ?thesis by blast
qed

text \<open>Claim C5 at the sample run: the snapshot of the ids 1 and 9 becomes that of 1 and 2.\<close>

theorem snapshot_equals_current_witness:
  "file_after (main_with BOARDS sample_env) =
     Json (snapshot_doc [''Scale Army Careers:1'', ''Scale Army Careers:2'']) \<and>
   load_seen_ids (file_after (main_with BOARDS sample_env)) = (Inr (current_ids_of sample_jobs, False), [])"
proof -
  have w: "write_result sample_env = WriteOk" by (simp add: sample_env_def)
  note t = snapshot_equals_current[OF sample_creds sample_load sample_fetch_all sample_nonempty w]
  note a = t[THEN conjunct2, THEN conjunct1, unfolded sorted_sample]
  note b = t[THEN conjunct2, THEN conjunct2]
  from a b show ?thesis by (rule conjI)
qed

section \<open>Writing the snapshot\<close>

text \<open>
  Claim C6 says that a write of the snapshot is one atomic replace, so that the file
  holds the whole old or the whole new snapshot at every interruption point. The code
  opens jobs.json itself in mode \<open>w\<close> and dumps into it: after the open, and when
  \<open>json.dump\<close> raises \<open>IOError\<close>, the file holds a text cut short, which is neither.
\<close>

theorem truncated_write_counterexample:
  "save_seen_ids {JStr ''b''} DumpFails (Json (snapshot_doc [''a'']))
     = (None, NotJson, [FileWrite [''b''], Log ERROR]) \<and>
   save_progress 1 [''b''] (Json (snapshot_doc [''a''])) = NotJson \<and>
   NotJson \<noteq> Json (snapshot_doc [''a'']) \<and>
   NotJson \<noteq> Json (snapshot_doc [''b''])"
  by (simp add: save_seen_ids_def py_sorted_def)

text \<open>
  Claim C6, amended. \<open>save_seen_ids\<close> overwrites jobs.json in place and in full. When the
  open fails the file is what it was; when the write is cut after the open the file holds
  a text cut short, which the next load answers with the empty set, not a first run, and
  a warning; when the write completes the file holds the sorted ids and loads back as
  exactly the set that was saved. At every point of the write the file is in one of
  these three states.
\<close>

theorem save_overwrites_in_place:
  assumes "\<forall>v \<in> ids. is_str v" and "finite ids"
  shows "(w = OpenFails \<longrightarrow> fst (snd (save_seen_ids ids w f)) = f) \<and>
         (w = DumpFails \<longrightarrow> fst (snd (save_seen_ids ids w f)) = NotJson) \<and>
         (w = WriteOk \<longrightarrow>
            fst (snd (save_seen_ids ids w f)) = Json (snapshot_doc (sorted_list_of_set (the_str ` ids))) \<and>
            load_seen_ids (fst (snd (save_seen_ids ids w f))) = (Inr (ids, False), [])) \<and>
         load_seen_ids NotJson = (Inr ({}, False), [Log WARNING]) \<and>
         (\<forall>k. save_progress k (sorted_list_of_set (the_str ` ids)) f = f \<or>
              save_progress k (sorted_list_of_set (the_str ` ids)) f = NotJson \<or>
              save_progress k (sorted_list_of_set (the_str ` ids)) f =
                Json (snapshot_doc (sorted_list_of_set (the_str ` ids))))"
proof -
  let ?xs = "sorted_list_of_set (the_str ` ids)"
  have s: "fst (snd (save_seen_ids ids w f)) = save_progress (steps_done w) ?xs f"
    using assms(1) by (simp add: save_seen_ids_def py_sorted_def)
  have l: "load_seen_ids (Json (snapshot_doc ?xs)) = (Inr (ids, False), [])"
    using assms by (simp add: load_snapshot_doc JStr_the_str)
  have p: "\<forall>k. save_progress k ?xs f = f \<or> save_progress k ?xs f = NotJson \<or>
               save_progress k ?xs f = Json (snapshot_doc ?xs)"
  proof
    fix k show "save_progress k ?xs f = f \<or> save_progress k ?xs f = NotJson \<or>
               save_progress k ?xs f = Json (snapshot_doc ?xs)"
      by (cases "(k, ?xs, f)" rule: save_progress.cases) auto
  qed
  have n: "load_seen_ids NotJson = (Inr ({}, False), [Log WARNING])"
    by (simp add: load_seen_ids_def)
  from s l p n show ?thesis
    by (auto simp: numeral_2_eq_2)
qed

text \<open>Claim C6, amended, at the set of the ids \<open>a\<close> and \<open>b\<close>, written to a new file.\<close>

theorem save_overwrites_in_place_witness:
  "fst (snd (save_seen_ids {JStr ''b'', JStr ''a''} WriteOk Missing)) = Json (snapshot_doc [''a'', ''b'']) \<and>
   load_seen_ids (Json (snapshot_doc [''a'', ''b''])) = (Inr ({JStr ''b'', JStr ''a''}, False), [])"
proof -
  have h1: "\<forall>v \<in> {JStr ''b'', JStr ''a''}. is_str v" by simp
  have h2: "finite {JStr ''b'', JStr ''a''}" by simp
  have o: "sorted_list_of_set {''b'', ''a''} = [''a'', ''b'']" by code_simp
  have i: "the_str ` {JStr ''b'', JStr ''a''} = {''b'', ''a''}" by simp
  note t = save_overwrites_in_place[OF h1 h2, of WriteOk Missing]
  note c = t[THEN conjunct2, THEN conjunct2, THEN conjunct1, THEN mp, OF refl]
  note a = c[THEN conjunct1, unfolded i o]
  note b = c[THEN conjunct2, unfolded a]
  from a b show ?thesis by (rule conjI)
qed

section \<open>Fetching a board\<close>

text \<open>
  Claim C7 says that \<open>fetch_jobs\<close> never raises and returns \<open>[]\<close> on every failure. The last
  \<open>except\<close> clause names \<open>ValueError\<close> and \<open>KeyError\<close> only: a response whose body is the JSON
  array \<open>[]\<close> makes \<open>data.get\<close> raise \<open>AttributeError\<close>, a body \<open>{"jobs": null}\<close> makes the
  iteration raise \<open>TypeError\<close>, and so does a job whose \<open>employmentType\<close> is a list, as a
  dict key; each leaves the function.
\<close>

theorem fetch_jobs_raises:
  "fetch_jobs b (Response 200 (Some (JArr []))) = (Inl AttributeError, [HttpGet (url b)]) \<and>
   fetch_jobs b (Response 200 (Some (JObj [(''jobs'', JNull)]))) = (Inl TypeError, [HttpGet (url b)]) \<and>
   fetch_jobs b (Response 200 (Some (JObj [(''jobs'', JArr [JObj [(''employmentType'', JArr [])]])])))
     = (Inl TypeError, [HttpGet (url b)])"
  by (simp add: fetch_jobs_def fetch_body_def dict_get_def is_ValueError_def normalise_job_def Let_def)

section \<open>Order of the notifications\<close>

text \<open>
  Claim C8 says that every steady-state run attempts a notification for exactly the new
  ids, in ascending order. In the run below the postings 2 and 3 are new and posting 2
  has the title \<open>null\<close>: \<open>raw.get("title", "Untitled Role")\<close> returns \<open>None\<close>,
  \<open>escape_markdown\<close> raises \<open>AttributeError\<close> on it, and the run ends with no notification
  attempted, after both ids were written to the snapshot.
\<close>

theorem null_title_aborts_notifications:
  "py_sorted (new_ids (current_ids_of [(sample_job ''Scale Army Careers'' ''2'' []) \<lparr> title := JNull \<rparr>,
                                        sample_job ''Scale Army Careers'' ''3'' ''Recruiter''])
                      {JStr ''Scale Army Careers:1'', JStr ''Scale Army Careers:9''})
     = Inr [''Scale Army Careers:2'', ''Scale Army Careers:3''] \<and>
   raised (main null_title_env) = Some AttributeError \<and>
   attempted (events (main null_title_env)) = [] \<and>
   filter is_write (events (main null_title_env)) =
     [FileWrite [''Scale Army Careers:2'', ''Scale Army Careers:3'']]"
  apply (simp add: main_def)
  apply code_simp
  done

text \<open>Claim C8: the exception that ends that run.\<close>

theorem null_title_aborts_notifications_witness:
  "raised (main null_title_env) = Some AttributeError"
  using null_title_aborts_notifications by simp

section \<open>The id of a posting\<close>

text \<open>
  Claim C9 says that the suffix is derived from title and publish timestamp when and only
  when the source-local identifier is absent. A record whose \<open>id\<close> is present and is the
  number 0 gets the derived suffix too, not \<open>Board:0\<close>: Python's \<open>or\<close> tests the truth value.
\<close>

theorem falsy_id_counterexample:
  "map_of [(''id'', JInt 0), (''title'', JStr ''Dev''), (''publishedAt'', JStr ''2024-01-01'')] ''id''
     = Some (JInt 0) \<and>
   normalise_job [(''id'', JInt 0), (''title'', JStr ''Dev''), (''publishedAt'', JStr ''2024-01-01'')] ''Board''
     = Inr \<lparr> ident = ''Board:Dev_2024-01-01'', platform = ''Board'', title = JStr ''Dev'',
            department = JStr ''Unknown'', team = JStr [], location = JStr ''Unknown'',
            is_remote = JBool False, employment_type = JStr [],
            published_at = JStr ''2024-01-01'', job_url = JStr [], apply_url = JStr [] \<rparr> \<and>
   ''Board:Dev_2024-01-01'' \<noteq> ''Board'' @ '':'' @ py_str (JInt 0)"
  by (simp add: normalise_job_def local_job_id_def dict_get_def employment_type_map_def Let_def str_int_def)

text \<open>
  Claim C9, amended. The id of the normalised job is the platform name, a colon, and the
  source-local identifier whenever that identifier is true in Python's truth value
  testing; when it is missing, \<open>null\<close> or otherwise false (empty string, 0, \<open>false\<close>, empty list
  or object) the suffix is the title, an underscore and the publish timestamp, each
  defaulting to the empty string. The id is a function of these three fields and the
  platform name alone: two records that agree on them get the same id.
\<close>

theorem normalise_job_id:
  assumes "normalise_job raw p = Inr j"
  shows "(truthy (dict_get raw ''id'' JNull) \<longrightarrow>
            ident j = p @ '':'' @ py_str (dict_get raw ''id'' JNull)) \<and>
         (\<not> truthy (dict_get raw ''id'' JNull) \<longrightarrow>
            ident j = p @ '':'' @ py_str (dict_get raw ''title'' (JStr [])) @ ''_'' @
                      py_str (dict_get raw ''publishedAt'' (JStr []))) \<and>
         (\<forall>raw' j'. normalise_job raw' p = Inr j' \<and>
             map_of raw' ''id'' = map_of raw ''id'' \<and>
             map_of raw' ''title'' = map_of raw ''title'' \<and>
             map_of raw' ''publishedAt'' = map_of raw ''publishedAt'' \<longrightarrow> ident j' = ident j)"
proof (intro conjI allI impI)
  assume "truthy (dict_get raw ''id'' JNull)"
  then show "ident j = p @ '':'' @ py_str (dict_get raw ''id'' JNull)"
    using ident_local[OF assms] by (simp add: local_job_id_def Let_def)
next
  assume "\<not> truthy (dict_get raw ''id'' JNull)"
  then show "ident j = p @ '':'' @ py_str (dict_get raw ''title'' (JStr [])) @ ''_'' @
                      py_str (dict_get raw ''publishedAt'' (JStr []))"
    using ident_local[OF assms] by (simp add: local_job_id_def Let_def)
next
  fix raw' j'
  assume a: "normalise_job raw' p = Inr j' \<and>
             map_of raw' ''id'' = map_of raw ''id'' \<and>
             map_of raw' ''title'' = map_of raw ''title'' \<and>
             map_of raw' ''publishedAt'' = map_of raw ''publishedAt''"
  then have "local_job_id raw' = local_job_id raw"
    using local_job_id_same[of raw' raw] by blast
  moreover from a have "ident j' = p @ '':'' @ py_str (local_job_id raw')"
    using ident_local[of raw' p j'] by blast
  ultimately show "ident j' = ident j"
    using ident_local[OF assms] by simp
qed

text \<open>Claim C9, amended, at a record with the identifier \<open>7f3a\<close>.\<close>

theorem normalise_job_id_witness:
  "normalise_job [(''id'', JStr ''7f3a''), (''title'', JStr ''Dev'')] ''Board''
     = Inr (sample_job ''Board'' ''7f3a'' ''Dev'') \<and>
   ident (sample_job ''Board'' ''7f3a'' ''Dev'') = ''Board:7f3a''"
  using normalise_job_id[OF sample_normalise, of "CHR ''7''" "''f3a''" "''Dev''" "''Board''"]
  by (simp add: sample_normalise dict_get_def)

section \<open>A board that fails alone\<close>

text \<open>
  Claim C10. Take a run that is not the first, over boards with distinct names that hold
  no colon, in which the fetch of board \<open>b\<close> returns the empty list and the fetch as a whole
  does not. Then every seen id in the namespace of \<open>b\<close> (its name, a colon, anything) is in
  \<open>removed_ids\<close> and not in the set that is written: the one write of the run lists the
  updated ids without it, and when the write succeeds the next load returns the updated
  ids. The empty-fetch guard did not stop the run.
\<close>

theorem failed_board_ids_dropped:
  assumes "TELEGRAM_BOT_TOKEN e \<noteq> []" and "TELEGRAM_CHAT_ID e \<noteq> []"
    and "load_seen_ids (jobs_file e) = (Inr (seen, False), ev0)"
    and "fetch_all boards (http_get e) = (Inr jobs, ev1)" and "jobs \<noteq> []"
    and "b \<in> set boards" and "fst (fetch_jobs b (http_get e (url b))) = Inr []"
    and "distinct (map name boards)"
    and "\<forall>b' \<in> set boards. CHR '':'' \<notin> set (name b')"
    and "JStr (name b @ '':'' @ x) \<in> seen"
  shows "JStr (name b @ '':'' @ x) \<in> removed_ids (current_ids_of jobs) seen \<and>
         JStr (name b @ '':'' @ x) \<notin> updated_ids (current_ids_of jobs) seen \<and>
         filter is_write (events (main_with boards e)) =
           [FileWrite (sorted_list_of_set (the_str ` updated_ids (current_ids_of jobs) seen))] \<and>
         name b @ '':'' @ x \<notin> set (sorted_list_of_set (the_str ` updated_ids (current_ids_of jobs) seen)) \<and>
         (write_result e = WriteOk \<longrightarrow>
            load_seen_ids (file_after (main_with boards e)) =
              (Inr (updated_ids (current_ids_of jobs) seen, False), []))"
proof -
  let ?s = "name b @ '':'' @ x"
  have notcur: "?s \<notin> ident ` set jobs"
  proof
    assume "?s \<in> ident ` set jobs"
    then obtain j where j: "j \<in> set jobs" "ident j = ?s" by auto
    from fetch_all_origin[OF assms(4)] j(1) obtain b' js ev' where
      b': "b' \<in> set boards" "fetch_jobs b' (http_get e (url b')) = (Inr js, ev')" "j \<in> set js"
      by blast
    from fetch_jobs_prefix[OF b'(2)] b'(3) obtain y where y: "ident j = name b' @ '':'' @ y"
      by blast
    from assms(9) assms(6) b'(1) have "CHR '':'' \<notin> set (name b)" "CHR '':'' \<notin> set (name b')"
      by simp_all
    moreover from j(2) y have "name b @ '':'' @ x = name b' @ '':'' @ y" by simp
    ultimately have "name b = name b'" by (rule namespaces_apart)
    from distinct_names[OF assms(8) assms(6) b'(1) this] have "b = b'" .
    with assms(7) b'(2) b'(3) show False by simp
  qed
  then have nc: "JStr ?s \<notin> current_ids_of jobs"
    by (auto simp: current_ids_of_def)
  have 1: "JStr ?s \<in> removed_ids (current_ids_of jobs) seen"
    using assms(10) nc by (simp add: removed_ids_def)
  have 2: "JStr ?s \<notin> updated_ids (current_ids_of jobs) seen"
    using nc by (simp add: updated_ids_current)
  have 3: "filter is_write (events (main_with boards e)) =
           [FileWrite (sorted_list_of_set (the_str ` updated_ids (current_ids_of jobs) seen))]"
    using steady_writes[OF assms(1-5)] by (simp add: updated_ids_current the_str_current)
  have 4: "?s \<notin> set (sorted_list_of_set (the_str ` updated_ids (current_ids_of jobs) seen))"
    using notcur by (simp add: updated_ids_current the_str_current)
  have 5: "write_result e = WriteOk \<longrightarrow>
            load_seen_ids (file_after (main_with boards e)) =
              (Inr (updated_ids (current_ids_of jobs) seen, False), [])"
  proof
    assume w: "write_result e = WriteOk"
    obtain r f ev2 where s: "steady_state e seen jobs = (r, f, ev2)"
      by (cases "steady_state e seen jobs") auto
    from steady_state_file[of e seen jobs] s w
    have f: "f = Json (snapshot_doc (sorted_list_of_set (ident ` set jobs)))"
      by (simp add: numeral_2_eq_2)
    from main_steady[OF assms(1-5)] s f
    have "file_after (main_with boards e) = Json (snapshot_doc (sorted_list_of_set (ident ` set jobs)))"
      by simp
    then show "load_seen_ids (file_after (main_with boards e)) =
              (Inr (updated_ids (current_ids_of jobs) seen, False), [])"
      by (simp add: load_snapshot_doc JStr_ident_current updated_ids_current)
  qed
  from 1 2 3 4 5 show ?thesis by blast
qed

text \<open>Claim C10 at two boards, Alpha timing out: the seen id \<open>Alpha:7\<close> is dropped.\<close>

theorem failed_board_ids_dropped_witness:
  "fst (fetch_jobs \<lparr> name = ''Alpha'', url = ''https://alpha'' \<rparr>
          (http_get one_down_env ''https://alpha'')) = Inr [] \<and>
   JStr ''Alpha:7'' \<in> removed_ids
      (current_ids_of [sample_job ''Beta'' ''2'' ''Developer'', sample_job ''Beta'' ''1'' ''Designer''])
      {JStr ''Alpha:7'', JStr ''Beta:1''} \<and>
   filter is_write (events (main_with two_boards one_down_env)) = [FileWrite [''Beta:1'', ''Beta:2'']]"
proof -
  let ?a = "\<lparr> name = ''Alpha'', url = ''https://alpha'' \<rparr>"
  let ?jobs = "[sample_job ''Beta'' ''2'' ''Developer'', sample_job ''Beta'' ''1'' ''Designer'']"
  have h1: "TELEGRAM_BOT_TOKEN one_down_env \<noteq> []" and h2: "TELEGRAM_CHAT_ID one_down_env \<noteq> []"
    by (simp_all add: one_down_env_def)
  have h5: "?jobs \<noteq> []" by simp
  have h6: "?a \<in> set two_boards" by (simp add: two_boards_def)
  have h7: "fst (fetch_jobs ?a (http_get one_down_env (url ?a))) = Inr []"
    by (simp add: one_down_env_def fetch_jobs_failures)
  have h8: "distinct (map name two_boards)" by (simp add: two_boards_def)
  have h9: "\<forall>b' \<in> set two_boards. CHR '':'' \<notin> set (name b')" by (simp add: two_boards_def)
  have h10: "JStr (name ?a @ '':'' @ ''7'') \<in> {JStr ''Alpha:7'', JStr ''Beta:1''}" by simp
  have o: "sorted_list_of_set (ident ` set ?jobs) = [''Beta:1'', ''Beta:2'']" by code_simp
  note t = failed_board_ids_dropped[OF h1 h2 one_down_load one_down_fetch h5 h6 h7 h8 h9 h10]
  from t[THEN conjunct1]
  have a: "JStr ''Alpha:7'' \<in> removed_ids (current_ids_of ?jobs) {JStr ''Alpha:7'', JStr ''Beta:1''}"
    by simp
  note b = t[THEN conjunct2, THEN conjunct2, THEN conjunct1,
             unfolded updated_ids_current the_str_current o]
  from h7 a b show ?thesis by simp
qed

end
